theory Spec2Isabelle
  imports Main "HOL-Library.Word"
begin

text \<open>
  A shallow embedding of whisper-dictate: the PID file protocol of \<open>utils.py\<close> and
  \<open>cli.py\<close>, the recorder of \<open>recorder.py\<close>, the output cleaning of
  \<open>transcriber.py\<close> and the event handlers of \<open>window.py\<close>. The first part holds
  the definitions, the second the properties.
\<close>

section \<open>Python strings\<close>

text \<open>
  A Python \<open>str\<close> is modelled as a \<open>string\<close> whose characters are the code points
  below 256. \<open>is_space\<close> is \<open>str.isspace\<close> on that range: tab, line feed, vertical
  tab, form feed, carriage return, the separators 0x1C to 0x1F, space, NEL (0x85) and
  the no-break space (0xA0).
\<close>

definition is_space :: "char \<Rightarrow> bool" where
  "is_space c =
     (let n = (of_char c :: nat)
      in (9 \<le> n \<and> n \<le> 13) \<or> (28 \<le> n \<and> n \<le> 32) \<or> n = 133 \<or> n = 160)"

definition newline :: char where
  "newline = CHR 0x0A"

text \<open>\<open>s.strip()\<close>: whitespace removed at both ends.\<close>

definition py_strip :: "string \<Rightarrow> string" where
  "py_strip s = rev (dropWhile is_space (rev (dropWhile is_space s)))"

text \<open>
  \<open>s.split(sep)\<close> for a one-character separator: the pieces between the separators,
  empty pieces kept, so the result is never the empty list.
\<close>

fun py_split :: "char \<Rightarrow> string \<Rightarrow> string list" where
  "py_split sep [] = [[]]"
| "py_split sep (c # cs) =
     (if c = sep then [] # py_split sep cs
      else (case py_split sep cs of
              [] \<Rightarrow> [[c]]
            | l # ls \<Rightarrow> (c # l) # ls))"

text \<open>\<open>sep.join(xs)\<close>.\<close>

fun py_join :: "string \<Rightarrow> string list \<Rightarrow> string" where
  "py_join sep [] = []"
| "py_join sep [x] = x"
| "py_join sep (x # y # ys) = x @ sep @ py_join sep (y # ys)"

text \<open>\<open>str(n)\<close> for an integer: decimal digits, a minus sign for negative numbers.\<close>

definition digit_char :: "nat \<Rightarrow> char" where
  "digit_char d = char_of (48 + d)"

fun str_nat :: "nat \<Rightarrow> string" where
  "str_nat n = (if n < 10 then [digit_char n] else str_nat (n div 10) @ [digit_char (n mod 10)])"

declare str_nat.simps [simp del]

definition py_str :: "int \<Rightarrow> string" where
  "py_str i = (if i < 0 then CHR ''-'' # str_nat (nat (- i)) else str_nat (nat i))"

text \<open>
  \<open>int(s)\<close> in base ten: surrounding whitespace is skipped, one sign is allowed, then
  decimal digits, where single underscores may stand between two digits. \<open>None\<close> is
  the \<open>ValueError\<close>. The interpreter's limit on the number of digits is not modelled.
\<close>

definition is_digit :: "char \<Rightarrow> bool" where
  "is_digit c = (48 \<le> (of_char c :: nat) \<and> (of_char c :: nat) \<le> 57)"

definition digit_val :: "char \<Rightarrow> nat" where
  "digit_val c = of_char c - 48"

fun digits_value :: "nat \<Rightarrow> string \<Rightarrow> nat option" where
  "digits_value acc [] = Some acc"
| "digits_value acc (c # cs) =
     (if is_digit c then digits_value (10 * acc + digit_val c) cs
      else if c = CHR ''_'' then
        (case cs of
           [] \<Rightarrow> None
         | d # ds \<Rightarrow> if is_digit d then digits_value (10 * acc + digit_val d) ds else None)
      else None)"

definition parse_digits :: "string \<Rightarrow> nat option" where
  "parse_digits s =
     (case s of
        [] \<Rightarrow> None
      | c # cs \<Rightarrow> if is_digit c then digits_value (digit_val c) cs else None)"

definition py_int :: "string \<Rightarrow> int option" where
  "py_int s =
     (case py_strip s of
        [] \<Rightarrow> None
      | c # cs \<Rightarrow>
          if c = CHR ''-'' then map_option (\<lambda>n. - int n) (parse_digits cs)
          else if c = CHR ''+'' then map_option int (parse_digits cs)
          else map_option int (parse_digits (c # cs)))"

section \<open>transcriber.py\<close>

text \<open>
  What \<open>subprocess.run(..., capture_output=True, text=True, timeout=...)\<close> does: it
  returns a completed process (exit status and captured standard output; \<open>check\<close> is
  not set, so a non-zero status does not raise), raises \<open>TimeoutExpired\<close>, or raises
  another exception (the executable cannot be launched).
\<close>

datatype run_outcome =
    CompletedProcess int string
  | TimeoutExpired
  | RunException

record transcriber =
  model_path :: string
  whisper_cli :: string
  language :: string
  threads :: int
  timeout :: int

definition command :: "transcriber \<Rightarrow> string \<Rightarrow> string list" where
  "command t audio_file =
     [whisper_cli t, ''-m'', model_path t, ''-f'', audio_file, ''--no-timestamps'',
      ''-t'', py_str (threads t), ''--language'', language t]"

text \<open>The list comprehension of \<open>Transcriber.transcribe\<close> and the join after it.\<close>

definition clean_output :: "string \<Rightarrow> string" where
  "clean_output stdout =
     py_join '' ''
       (map py_strip
          (filter (\<lambda>line. py_strip line \<noteq> []) (py_split newline (py_strip stdout))))"

text \<open>The lines the comprehension keeps, trimmed.\<close>

definition kept_lines :: "string list \<Rightarrow> string list" where
  "kept_lines ls = map py_strip (filter (\<lambda>line. py_strip line \<noteq> []) ls)"

text \<open>
  \<open>Transcriber.transcribe\<close>. The child process is the parameter \<open>run\<close>, from the
  argument vector and the timeout to its outcome. Both \<open>except\<close> clauses return the
  empty string.
\<close>

definition transcribe ::
  "(string list \<Rightarrow> int \<Rightarrow> run_outcome) \<Rightarrow> transcriber \<Rightarrow> string \<Rightarrow> string" where
  "transcribe run t audio_file =
     (case run (command t audio_file) (timeout t) of
        CompletedProcess returncode stdout \<Rightarrow> clean_output stdout
      | TimeoutExpired \<Rightarrow> []
      | RunException \<Rightarrow> [])"

text \<open>
  The cleaning as the specification words it: split the raw output into lines, trim
  each line, discard the lines that are empty after trimming, join with single spaces.
\<close>

definition spec_clean :: "string \<Rightarrow> string" where
  "spec_clean raw =
     py_join '' '' (filter (\<lambda>l. l \<noteq> []) (map py_strip (py_split newline raw)))"

section \<open>The machine\<close>

text \<open>
  What the program acts on: the PID file \<open>/tmp/whisper-dictate.pid\<close> (\<open>None\<close> when
  it does not exist), the process table as \<open>os.kill\<close> sees it, the process's own
  identifier, the temporary files, and the trace of the calls that leave the program,
  in the order they are made.
\<close>

type_synonym bytes = "8 word list"

datatype signal = Signal0 | SIGUSR1

datatype proc =
    Running      \<comment> \<open>the process runs and \<open>os.kill\<close> returns\<close>
  | NoProcess    \<comment> \<open>no such process: \<open>os.kill\<close> raises \<open>ProcessLookupError\<close>\<close>
  | Foreign      \<comment> \<open>the process runs, the caller may not signal it: \<open>PermissionError\<close>\<close>

datatype exn = ProcessLookupError | PermissionError | OverflowError | ValueError

datatype file_content =
    RawFile bytes
  | WavFile nat nat nat bytes  \<comment> \<open>channels, sample width, frame rate, frames\<close>

datatype action =
    Kill int signal          \<comment> \<open>a signal delivered by \<open>os.kill\<close>\<close>
  | UnlinkPid                \<comment> \<open>\<open>PID_FILE.unlink(missing_ok=True)\<close>\<close>
  | OpenStream
  | StopStream
  | CloseStream
  | Terminate                \<comment> \<open>\<open>self.p.terminate()\<close>\<close>
  | UnlinkTemp               \<comment> \<open>the temporary audio file is unlinked\<close>
  | Level bytes              \<comment> \<open>the level callback, called with the level of this chunk\<close>
  | StartThread string       \<comment> \<open>the transcription thread, started on this audio file\<close>
  | Clipboard string
  | Typed string
  | VisualizerStop

record machine =
  pid_file :: "string option"
  process :: "int \<Rightarrow> proc"
  getpid :: int
  files :: "string \<Rightarrow> file_content option"
  trace :: "action list"

definition log :: "action list \<Rightarrow> 'a machine_scheme \<Rightarrow> 'a machine_scheme" where
  "log as m = m\<lparr>trace := trace m @ as\<rparr>"

section \<open>utils.py: the PID file\<close>

text \<open>
  The process identifiers \<open>os.kill\<close> accepts: those of a C \<open>int\<close>. Any other integer
  raises \<open>OverflowError\<close> before the process table is looked at.
\<close>

definition pid_in_range :: "int \<Rightarrow> bool" where
  "pid_in_range pid = (- 2147483648 \<le> pid \<and> pid \<le> 2147483647)"

text \<open>
  \<open>os.kill(pid, sig)\<close>: signal 0 only probes the process, any other signal is
  delivered. A process that runs but that the caller may not signal gives
  \<open>PermissionError\<close>.
\<close>

definition os_kill :: "'a machine_scheme \<Rightarrow> int \<Rightarrow> signal \<Rightarrow> exn + 'a machine_scheme" where
  "os_kill m pid sig =
     (if \<not> pid_in_range pid then Inl OverflowError
      else
        (case process m pid of
           NoProcess \<Rightarrow> Inl ProcessLookupError
         | Foreign \<Rightarrow> Inl PermissionError
         | Running \<Rightarrow> Inr (if sig = Signal0 then m else log [Kill pid sig] m)))"

definition unlink_pid :: "'a machine_scheme \<Rightarrow> 'a machine_scheme" where
  "unlink_pid m = log [UnlinkPid] (m\<lparr>pid_file := None\<rparr>)"

text \<open>The body of the \<open>try\<close> in \<open>is_already_running\<close>, on the text of the PID file.\<close>

definition signal_owner :: "'a machine_scheme \<Rightarrow> string \<Rightarrow> exn + bool \<times> 'a machine_scheme" where
  "signal_owner m txt =
     (case py_int (py_strip txt) of
        None \<Rightarrow> Inl ValueError
      | Some pid \<Rightarrow>
          (case os_kill m pid Signal0 of
             Inl e \<Rightarrow> Inl e
           | Inr m1 \<Rightarrow>
               (case os_kill m1 pid SIGUSR1 of
                  Inl e \<Rightarrow> Inl e
                | Inr m2 \<Rightarrow> Inr (True, m2))))"

text \<open>
  \<open>is_already_running\<close>: \<open>ProcessLookupError\<close> and \<open>ValueError\<close> are caught, the PID
  file is unlinked and the result is \<open>False\<close>; any other exception
  (\<open>PermissionError\<close>, \<open>OverflowError\<close>) leaves the function and the PID file stays.
\<close>

definition is_already_running :: "'a machine_scheme \<Rightarrow> exn + bool \<times> 'a machine_scheme" where
  "is_already_running m =
     (case pid_file m of
        None \<Rightarrow> Inr (False, m)
      | Some txt \<Rightarrow>
          (case signal_owner m txt of
             Inr r \<Rightarrow> Inr r
           | Inl e \<Rightarrow>
               if e = ProcessLookupError \<or> e = ValueError then Inr (False, unlink_pid m)
               else Inl e))"

definition write_pid :: "'a machine_scheme \<Rightarrow> 'a machine_scheme" where
  "write_pid m = m\<lparr>pid_file := Some (py_str (getpid m))\<rparr>"

definition cleanup_pid :: "'a machine_scheme \<Rightarrow> 'a machine_scheme" where
  "cleanup_pid m = unlink_pid m"

section \<open>cli.py: the single-instance check of main\<close>

text \<open>
  The lines \<open>if is_already_running(): sys.exit(0)\<close> and \<open>write_pid()\<close> of \<open>main\<close>.
  \<open>SignaledExisting\<close> is the exit with status 0 after the running instance was
  signalled; \<open>Claimed\<close> is the invocation that has written its identifier and goes on.
\<close>

datatype claim_result = Claimed | SignaledExisting

definition claim_or_signal :: "'a machine_scheme \<Rightarrow> exn + claim_result \<times> 'a machine_scheme" where
  "claim_or_signal m =
     (case is_already_running m of
        Inl e \<Rightarrow> Inl e
      | Inr (running, m1) \<Rightarrow>
          if running then Inr (SignaledExisting, m1) else Inr (Claimed, write_pid m1))"

text \<open>
  The same two lines with another process acting on the machine between the check and
  the write: \<open>env\<close> is what it does.
\<close>

definition claim_or_signal_between ::
  "('a machine_scheme \<Rightarrow> 'a machine_scheme) \<Rightarrow> 'a machine_scheme \<Rightarrow>
     exn + claim_result \<times> 'a machine_scheme" where
  "claim_or_signal_between env m =
     (case is_already_running m of
        Inl e \<Rightarrow> Inl e
      | Inr (running, m1) \<Rightarrow>
          if running then Inr (SignaledExisting, m1) else Inr (Claimed, write_pid (env m1)))"

section \<open>recorder.py\<close>

definition CHANNELS :: nat where
  "CHANNELS = 1"

definition RATE :: nat where
  "RATE = 16000"

text \<open>\<open>self.p.get_sample_size(FORMAT)\<close> for \<open>FORMAT = pyaudio.paInt16\<close>: two bytes.\<close>

definition sample_size :: nat where
  "sample_size = 2"

text \<open>
  An \<open>AudioRecorder\<close> together with the machine it runs on. \<open>level_callback\<close> says
  whether a callback was given, \<open>stream\<close> whether \<open>self.stream\<close> is set.
\<close>

record recorder = machine +
  level_callback :: bool
  recording :: bool
  audio_frames :: "bytes list"
  temp_file_path :: "string option"
  stream :: bool

text \<open>
  \<open>_audio_callback\<close>. The level handed to the callback is computed by numpy in
  floating point from the chunk; the trace records the call and the chunk it is made on.
\<close>

definition audio_callback :: "bytes \<Rightarrow> 'a recorder_scheme \<Rightarrow> 'a recorder_scheme" where
  "audio_callback in_data r =
     (if recording r then
        (let r1 = r\<lparr>audio_frames := audio_frames r @ [in_data]\<rparr>
         in if level_callback r1 then log [Level in_data] r1 else r1)
      else r)"

text \<open>
  \<open>start\<close>. \<open>tmp\<close> is the name \<open>tempfile.NamedTemporaryFile(suffix=".wav", delete=False)\<close>
  gives; the file exists and is empty from then on.
\<close>

definition start :: "string \<Rightarrow> 'a recorder_scheme \<Rightarrow> 'a recorder_scheme" where
  "start tmp r =
     log [OpenStream]
       (r\<lparr>recording := True, audio_frames := [], temp_file_path := Some tmp,
          files := (files r)(tmp \<mapsto> RawFile []), stream := True\<rparr>)"

text \<open>A string or \<open>None\<close> as a condition: \<open>None\<close> and the empty string are false.\<close>

definition truthy :: "string option \<Rightarrow> bool" where
  "truthy p = (case p of None \<Rightarrow> False | Some s \<Rightarrow> s \<noteq> [])"

definition stop :: "'a recorder_scheme \<Rightarrow> string option \<times> 'a recorder_scheme" where
  "stop r =
     (if \<not> recording r then (None, r)
      else
        (let r1 = r\<lparr>recording := False\<rparr>;
             r2 = (if stream r1 then log [StopStream, CloseStream] (r1\<lparr>stream := False\<rparr>) else r1)
         in if truthy (temp_file_path r2) \<and> audio_frames r2 \<noteq> [] then
              (temp_file_path r2,
               r2\<lparr>files := (files r2)(the (temp_file_path r2) \<mapsto>
                     WavFile CHANNELS sample_size RATE (concat (audio_frames r2)))\<rparr>)
            else (None, r2)))"

text \<open>The audio thread hands the chunks to the callback, one after the other.\<close>

definition deliver :: "bytes list \<Rightarrow> 'a recorder_scheme \<Rightarrow> 'a recorder_scheme" where
  "deliver chunks r = foldl (\<lambda>v c. audio_callback c v) r chunks"

definition cleanup :: "'a recorder_scheme \<Rightarrow> 'a recorder_scheme" where
  "cleanup r = log [Terminate] r"

definition cleanup_temp_file :: "'a recorder_scheme \<Rightarrow> 'a recorder_scheme" where
  "cleanup_temp_file r =
     (if truthy (temp_file_path r) then
        log [UnlinkTemp] (r\<lparr>files := (files r)(the (temp_file_path r) := None)\<rparr>)
      else r)"

section \<open>window.py\<close>

text \<open>
  A \<open>RecorderWindow\<close> with its recorder. \<open>win_recording\<close> is the window's own
  \<open>self.recording\<close>. \<open>worker\<close> is the audio file of a transcription thread that was
  started and has not run yet, \<open>emitted\<close> the text of a \<open>transcription_done\<close> signal
  that the thread has emitted and the main thread has not handled yet, \<open>close_timer\<close>
  a pending \<open>QTimer.singleShot(100, self.close)\<close>, \<open>closed\<close> an accepted close event.
\<close>

record window = recorder +
  win_recording :: bool
  output_mode :: string
  the_transcriber :: transcriber
  worker :: "string option"
  emitted :: "string option"
  close_timer :: bool
  closed :: bool

definition start_recording :: "string \<Rightarrow> 'a window_scheme \<Rightarrow> 'a window_scheme" where
  "start_recording tmp w = start tmp (w\<lparr>win_recording := True\<rparr>)"

definition on_transcription_done :: "'a window_scheme \<Rightarrow> 'a window_scheme" where
  "on_transcription_done w = (cleanup_pid (cleanup w))\<lparr>close_timer := True\<rparr>"

text \<open>
  \<open>stop_and_transcribe\<close>. With an audio file the thread is started; without one
  \<open>transcription_done\<close> is emitted on the main thread, where the connection is direct,
  so its slot runs at once.
\<close>

definition stop_and_transcribe :: "'a window_scheme \<Rightarrow> 'a window_scheme" where
  "stop_and_transcribe w =
     (if \<not> win_recording w then w
      else
        (case stop (w\<lparr>win_recording := False\<rparr>) of
           (Some audio_file, w1) \<Rightarrow> log [StartThread audio_file] (w1\<lparr>worker := Some audio_file\<rparr>)
         | (None, w1) \<Rightarrow> on_transcription_done w1))"

text \<open>
  \<open>_transcribe_thread\<close>, with the outcome of the child process. The text goes to the
  clipboard, and is typed in the output mode \<open>type\<close>; the \<open>finally\<close> clause removes
  the temporary file and emits \<open>transcription_done\<close>.
\<close>

definition transcribe_thread ::
  "run_outcome \<Rightarrow> string \<Rightarrow> 'a window_scheme \<Rightarrow> 'a window_scheme" where
  "transcribe_thread outcome audio_file w =
     (let text = transcribe (\<lambda>argv tmo. outcome) (the_transcriber w) audio_file;
          w1 = (if text \<noteq> [] then
                  (if output_mode w = ''type'' then log [Clipboard text, Typed text] w
                   else log [Clipboard text] w)
                else w)
      in (cleanup_temp_file w1)\<lparr>emitted := Some text\<rparr>)"

text \<open>What \<open>_transcribe_thread\<close> hands to the clipboard and to the typing tool.\<close>

definition deliveries :: "string \<Rightarrow> string \<Rightarrow> action list" where
  "deliveries mode text =
     (if text = [] then []
      else if mode = ''type'' then [Clipboard text, Typed text]
      else [Clipboard text])"

datatype key = Key_Escape | Key_Space | Key_Other

definition close_event :: "'a window_scheme \<Rightarrow> 'a window_scheme" where
  "close_event w =
     (if win_recording w then stop_and_transcribe w
      else (cleanup_pid (log [VisualizerStop] w))\<lparr>closed := True\<rparr>)"

definition key_press_event :: "key \<Rightarrow> 'a window_scheme \<Rightarrow> 'a window_scheme" where
  "key_press_event k w =
     (if k = Key_Escape \<or> k = Key_Space then stop_and_transcribe w else w)"

text \<open>
  What reaches the window: the timer that starts the recording, a chunk from the audio
  thread, a key, the \<open>stop_signal\<close> emitted by the SIGUSR1 handler, the SIGTERM or
  SIGINT handler of \<open>cli.py\<close> (which calls \<open>cleanup_pid\<close> and then emits
  \<open>stop_signal\<close>), a request to close the window, the transcription thread running
  to its end, the delivery of its \<open>transcription_done\<close> signal, and the timer that
  closes the window.
\<close>

datatype event =
    TimerStart string
  | AudioChunk bytes
  | KeyPress key
  | StopSignal
  | TermSignal
  | CloseRequest
  | WorkerRuns run_outcome
  | DoneDelivered
  | CloseTimer

fun handle :: "event \<Rightarrow> 'a window_scheme \<Rightarrow> 'a window_scheme" where
  "handle (TimerStart tmp) w = start_recording tmp w"
| "handle (AudioChunk c) w = audio_callback c w"
| "handle (KeyPress k) w = key_press_event k w"
| "handle StopSignal w = stop_and_transcribe w"
| "handle TermSignal w = stop_and_transcribe (cleanup_pid w)"
| "handle CloseRequest w = close_event w"
| "handle (WorkerRuns outcome) w =
     (case worker w of
        None \<Rightarrow> w
      | Some audio_file \<Rightarrow> transcribe_thread outcome audio_file (w\<lparr>worker := None\<rparr>))"
| "handle DoneDelivered w =
     (case emitted w of
        None \<Rightarrow> w
      | Some text \<Rightarrow> on_transcription_done (w\<lparr>emitted := None\<rparr>))"
| "handle CloseTimer w =
     (if close_timer w then close_event (w\<lparr>close_timer := False\<rparr>) else w)"

definition run_events :: "event list \<Rightarrow> 'a window_scheme \<Rightarrow> 'a window_scheme" where
  "run_events es w = foldl (\<lambda>v e. handle e v) w es"

text \<open>The requests to stop: Escape or Space, the peer's signal, the window being closed.\<close>

fun stop_request :: "event \<Rightarrow> bool" where
  "stop_request (KeyPress k) = (k = Key_Escape \<or> k = Key_Space)"
| "stop_request StopSignal = True"
| "stop_request CloseRequest = True"
| "stop_request e = False"

text \<open>
  The finalization steps in a trace: removal of the temporary audio file, release of the
  audio hardware, removal of the PID file.
\<close>

fun finalization :: "action \<Rightarrow> bool" where
  "finalization UnlinkTemp = True"
| "finalization Terminate = True"
| "finalization UnlinkPid = True"
| "finalization a = False"

fun teardown_or_release :: "action \<Rightarrow> bool" where
  "teardown_or_release Terminate = True"
| "teardown_or_release UnlinkPid = True"
| "teardown_or_release a = False"

fun stops_or_starts :: "action \<Rightarrow> bool" where
  "stops_or_starts StopStream = True"
| "stops_or_starts (StartThread f) = True"
| "stops_or_starts a = False"

text \<open>
  The order of the finalization steps in a trace, read from left to right. A trace is
  orderly when the temporary audio file is removed at most once and only before the
  audio hardware is released, the hardware is released at most once, and the release
  of the hardware is followed at once by a removal of the PID file. The PID file may be
  removed any number of times.
\<close>

datatype progress = Started | ArtifactRemoved | HardwareReleased | Finalized

fun advance :: "progress \<Rightarrow> action \<Rightarrow> progress option" where
  "advance p UnlinkPid = Some (if p = HardwareReleased then Finalized else p)"
| "advance p UnlinkTemp = (if p = Started then Some ArtifactRemoved else None)"
| "advance p Terminate =
     (if p = Started \<or> p = ArtifactRemoved then Some HardwareReleased else None)"
| "advance p a = (if p = HardwareReleased then None else Some p)"

fun follow :: "progress \<Rightarrow> action list \<Rightarrow> progress option" where
  "follow p [] = Some p"
| "follow p (a # as) = (case advance p a of None \<Rightarrow> None | Some q \<Rightarrow> follow q as)"

definition orderly :: "action list \<Rightarrow> bool" where
  "orderly tr =
     (case follow Started tr of
        None \<Rightarrow> False
      | Some p \<Rightarrow> p = Started \<or> p = ArtifactRemoved \<or> p = Finalized)"

text \<open>
  The timer that starts the recording is a single shot, set by the constructor: it
  fires at most once in a session. \<open>no_restart\<close> holds of the events after it has
  fired, \<open>at_most_one_start\<close> of the events of a whole session. A window is fresh when
  nothing has happened to it.
\<close>

fun no_restart :: "event list \<Rightarrow> bool" where
  "no_restart [] = True"
| "no_restart (TimerStart tmp # es) = False"
| "no_restart (e # es) = no_restart es"

fun at_most_one_start :: "event list \<Rightarrow> bool" where
  "at_most_one_start [] = True"
| "at_most_one_start (TimerStart tmp # es) = no_restart es"
| "at_most_one_start (e # es) = at_most_one_start es"

definition fresh :: "'a window_scheme \<Rightarrow> bool" where
  "fresh w =
     (trace w = [] \<and> win_recording w = False \<and> worker w = None \<and> emitted w = None \<and>
      closed w = False)"

text \<open>What holds of a window between two events before the recording is started.\<close>

definition before_start :: "'a window_scheme \<Rightarrow> bool" where
  "before_start w =
     (win_recording w = False \<and> worker w = None \<and> emitted w = None \<and>
      follow Started (trace w) = Some Started)"

text \<open>
  What holds of a window between two events, once the recording was started: it is
  recording; or the transcription thread is running; or the thread has emitted its
  result; or \<open>_on_transcription_done\<close> has run.
\<close>

definition between_events :: "'a window_scheme \<Rightarrow> bool" where
  "between_events w =
     ((win_recording w \<and> worker w = None \<and> emitted w = None \<and>
         follow Started (trace w) = Some Started) \<or>
      (win_recording w = False \<and> worker w \<noteq> None \<and> emitted w = None \<and>
         follow Started (trace w) = Some Started) \<or>
      (win_recording w = False \<and> worker w = None \<and> emitted w \<noteq> None \<and>
         (follow Started (trace w) = Some Started \<or>
          follow Started (trace w) = Some ArtifactRemoved)) \<or>
      (win_recording w = False \<and> worker w = None \<and> emitted w = None \<and>
         follow Started (trace w) = Some Finalized))"

section \<open>Concrete inputs\<close>

text \<open>A child process with a fixed outcome, whatever its arguments.\<close>

definition child :: "run_outcome \<Rightarrow> string list \<Rightarrow> int \<Rightarrow> run_outcome" where
  "child outcome argv tmo = outcome"

definition small_en :: transcriber where
  "small_en =
     \<lparr>model_path = ''/models/ggml-small.en.bin'', whisper_cli = ''/usr/bin/whisper-cli'',
      language = ''en'', threads = 4, timeout = 60\<rparr>"

text \<open>
  A machine on which the processes 4242 and 5150 run, 5150 being the caller, with the
  given PID file.
\<close>

definition two_processes :: "int \<Rightarrow> proc" where
  "two_processes p = (if p = 4242 \<or> p = 5150 then Running else NoProcess)"

definition a_machine :: "string option \<Rightarrow> machine" where
  "a_machine marker =
     \<lparr>pid_file = marker, process = two_processes, getpid = 5150, files = Map.empty, trace = []\<rparr>"



text \<open>Another process writes the PID file.\<close>

definition rewrite_marker :: "string \<Rightarrow> 'a machine_scheme \<Rightarrow> 'a machine_scheme" where
  "rewrite_marker txt m = m\<lparr>pid_file := Some txt\<rparr>"

text \<open>A recorder with a level callback that has not been started.\<close>

definition a_recorder :: recorder where
  "a_recorder =
     \<lparr>pid_file = Some ''5150'', process = two_processes, getpid = 5150, files = Map.empty,
      trace = [], level_callback = True, recording = False, audio_frames = [],
      temp_file_path = None, stream = False\<rparr>"

text \<open>A window right after its construction, \<open>main\<close> having written the PID file.\<close>

definition a_window :: window where
  "a_window =
     \<lparr>pid_file = Some ''5150'', process = two_processes, getpid = 5150, files = Map.empty,
      trace = [], level_callback = True, recording = False, audio_frames = [],
      temp_file_path = None, stream = False, win_recording = False,
      output_mode = ''clipboard'', the_transcriber = small_en, worker = None,
      emitted = None, close_timer = False, closed = False\<rparr>"

text \<open>The window after a recording of one chunk was stopped with the space key.\<close>

definition transcribing :: window where
  "transcribing =
     run_events [TimerStart ''/tmp/tmpk3.wav'', AudioChunk [1, 2], KeyPress Key_Space] a_window"

section \<open>Properties of the output cleaning\<close>

lemma py_split_not_Nil: "py_split sep s \<noteq> []"
  by (induction s) (auto split: list.splits)

lemma py_strip_Nil: "py_strip [] = []"
  by (simp add: py_strip_def)

lemma py_strip_space_Cons: "is_space c \<Longrightarrow> py_strip (c # l) = py_strip l"
  by (simp add: py_strip_def)

lemma py_strip_space_snoc:
  assumes sp: "is_space c"
  shows "py_strip (l @ [c]) = py_strip l"
proof (cases "\<forall>x\<in>set l. is_space x")
  case True
  then have "dropWhile is_space (l @ [c]) = dropWhile is_space [c]"
    by (intro dropWhile_append2) auto
  also have "\<dots> = []"
    using sp by simp
  finally have whole: "dropWhile is_space (l @ [c]) = []" .
  have front: "dropWhile is_space l = []"
    using True by (simp add: dropWhile_eq_Nil_conv)
  show ?thesis
    unfolding py_strip_def whole front by simp
next
  case False
  then obtain x where "x \<in> set l" and "\<not> is_space x" by blast
  then have "dropWhile is_space (l @ [c]) = dropWhile is_space l @ [c]"
    by (rule dropWhile_append1)
  then show ?thesis using sp by (simp add: py_strip_def)
qed

lemma kept_lines_append: "kept_lines (xs @ ys) = kept_lines xs @ kept_lines ys"
  by (simp add: kept_lines_def)

lemma kept_lines_space_Cons:
  "is_space c \<Longrightarrow> kept_lines (py_split newline (c # s)) = kept_lines (py_split newline s)"
  by (cases "py_split newline s")
     (auto simp: kept_lines_def py_strip_space_Cons py_strip_Nil py_split_not_Nil)

lemma kept_lines_lstrip:
  "kept_lines (py_split newline (dropWhile is_space s)) = kept_lines (py_split newline s)"
  by (induction s) (simp_all add: kept_lines_space_Cons del: py_split.simps)

lemma py_split_snoc:
  "py_split sep (s @ [c]) =
     (if c = sep then py_split sep s @ [[]]
      else butlast (py_split sep s) @ [last (py_split sep s) @ [c]])"
  by (induction s) (auto split: list.splits simp: py_split_not_Nil)

lemma kept_lines_space_snoc:
  assumes sp: "is_space c"
  shows "kept_lines (py_split newline (s @ [c])) = kept_lines (py_split newline s)"
proof (cases "c = newline")
  case True
  then show ?thesis
    by (simp add: py_split_snoc kept_lines_append) (simp add: kept_lines_def py_strip_Nil)
next
  case False
  let ?ls = "py_split newline s"
  have "kept_lines ?ls = kept_lines (butlast ?ls @ [last ?ls])"
    by (simp add: py_split_not_Nil)
  also have "\<dots> = kept_lines (butlast ?ls) @ kept_lines [last ?ls]"
    by (rule kept_lines_append)
  also have "kept_lines [last ?ls] = kept_lines [last ?ls @ [c]]"
    using sp by (simp add: kept_lines_def py_strip_space_snoc)
  finally show ?thesis
    using False by (simp add: py_split_snoc kept_lines_append)
qed

lemma kept_lines_rstrip:
  "kept_lines (py_split newline (rev (dropWhile is_space r))) = kept_lines (py_split newline (rev r))"
  by (induction r) (simp_all add: kept_lines_space_snoc)

lemma kept_lines_strip:
  "kept_lines (py_split newline (py_strip s)) = kept_lines (py_split newline s)"
  unfolding py_strip_def by (simp add: kept_lines_rstrip kept_lines_lstrip)

lemma clean_output_spec_clean: "clean_output raw = spec_clean raw"
  unfolding clean_output_def spec_clean_def
  using kept_lines_strip [of raw] by (simp add: kept_lines_def filter_map comp_def)

lemma clean_output_hello:
  "clean_output ''Hello\<newline>\<newline>world\<newline>'' = ''Hello world''"
  by (simp add: clean_output_def py_strip_def is_space_def newline_def)

text \<open>
  C4. When the child process completes with exit status 0, \<open>transcribe\<close> returns its
  standard output split into lines, each line trimmed, the lines that are empty after
  trimming discarded, and the rest joined with single spaces; the output
  \<open>"Hello\\n\\nworld\\n"\<close> gives \<open>"Hello world"\<close>.
\<close>

theorem transcribe_cleans_output:
  assumes "run (command t audio_file) (timeout t) = CompletedProcess 0 raw"
  shows "transcribe run t audio_file = spec_clean raw \<and>
         (raw = ''Hello\<newline>\<newline>world\<newline>'' \<longrightarrow>
            transcribe run t audio_file = ''Hello world'')"
  using assms by (auto simp: transcribe_def clean_output_spec_clean [symmetric] clean_output_hello)

theorem transcribe_cleans_output_witness:
  "child (CompletedProcess 0 ''Hello\<newline>\<newline>world\<newline>'')
     (command small_en ''/tmp/tmpk3.wav'') (timeout small_en) =
       CompletedProcess 0 ''Hello\<newline>\<newline>world\<newline>'' \<and>
   transcribe (child (CompletedProcess 0 ''Hello\<newline>\<newline>world\<newline>''))
     small_en ''/tmp/tmpk3.wav'' = ''Hello world''"
  using transcribe_cleans_output
    [of "child (CompletedProcess 0 ''Hello\<newline>\<newline>world\<newline>'')"
        small_en "''/tmp/tmpk3.wav''" "''Hello\<newline>\<newline>world\<newline>''",
      THEN conjunct2]
  by (simp add: child_def)

text \<open>
  C1, as the specification states it, fails: \<open>transcribe\<close> returns a plain string. A
  child process that exits with status 1 and prints \<open>Hello\<close> gives the same result as
  one that exits with status 0, and a timeout, a launch failure and an output of blank
  lines all give the same empty string.
\<close>

theorem transcribe_failures_not_distinguished:
  "transcribe (child (CompletedProcess 1 ''Hello'')) small_en ''/tmp/tmpk3.wav'' = ''Hello'' \<and>
   transcribe (child (CompletedProcess 0 ''Hello'')) small_en ''/tmp/tmpk3.wav'' = ''Hello'' \<and>
   transcribe (child TimeoutExpired) small_en ''/tmp/tmpk3.wav'' = [] \<and>
   transcribe (child RunException) small_en ''/tmp/tmpk3.wav'' = [] \<and>
   transcribe (child (CompletedProcess 0 ''\<newline>\<newline>\<newline>'')) small_en ''/tmp/tmpk3.wav'' = []"
  by (simp add: transcribe_def child_def clean_output_def py_strip_def is_space_def newline_def)

text \<open>
  C1, amended. \<open>transcribe\<close> returns a plain string: the empty string when the child
  process times out or raises any other exception, and the cleaned standard output when
  the run completes, the exit status not being looked at. A result that is not empty is
  therefore always the cleaned output of a completed run; the empty string stands for
  every failure and for an output without text alike.
\<close>

theorem transcribe_returns_plain_string:
  "(run (command t audio_file) (timeout t) = TimeoutExpired \<or>
    run (command t audio_file) (timeout t) = RunException \<longrightarrow>
      transcribe run t audio_file = []) \<and>
   (run (command t audio_file) (timeout t) = CompletedProcess rc out \<longrightarrow>
      transcribe run t audio_file = clean_output out) \<and>
   (transcribe run t audio_file \<noteq> [] \<longrightarrow>
      (\<exists>rc' out'. run (command t audio_file) (timeout t) = CompletedProcess rc' out' \<and>
         transcribe run t audio_file = clean_output out'))"
  by (cases "run (command t audio_file) (timeout t)") (auto simp: transcribe_def)

theorem transcribe_returns_plain_string_witness:
  "transcribe (child TimeoutExpired) small_en ''/tmp/tmpk3.wav'' = [] \<and>
   transcribe (child RunException) small_en ''/tmp/tmpk3.wav'' = [] \<and>
   transcribe (child (CompletedProcess 0 ''Hello'')) small_en ''/tmp/tmpk3.wav'' =
     clean_output ''Hello'' \<and>
   transcribe (child (CompletedProcess 0 ''Hello'')) small_en ''/tmp/tmpk3.wav'' \<noteq> [] \<and>
   (\<exists>rc' out'.
      child (CompletedProcess 0 ''Hello'') (command small_en ''/tmp/tmpk3.wav'') (timeout small_en) =
        CompletedProcess rc' out' \<and>
      transcribe (child (CompletedProcess 0 ''Hello'')) small_en ''/tmp/tmpk3.wav'' =
        clean_output out')"
proof -
  have timed_out: "transcribe (child TimeoutExpired) small_en ''/tmp/tmpk3.wav'' = []"
    using transcribe_returns_plain_string
      [of "child TimeoutExpired" small_en "''/tmp/tmpk3.wav''"]
    by (simp add: child_def)
  have raised: "transcribe (child RunException) small_en ''/tmp/tmpk3.wav'' = []"
    using transcribe_returns_plain_string
      [of "child RunException" small_en "''/tmp/tmpk3.wav''"]
    by (simp add: child_def)
  have completed:
    "transcribe (child (CompletedProcess 0 ''Hello'')) small_en ''/tmp/tmpk3.wav'' =
       clean_output ''Hello''"
    using transcribe_returns_plain_string
      [of "child (CompletedProcess 0 ''Hello'')" small_en "''/tmp/tmpk3.wav''" 0 "''Hello''"]
    by (simp add: child_def)
  have has_text: "clean_output ''Hello'' \<noteq> []"
    by (simp add: clean_output_def py_strip_def is_space_def newline_def)
  have nonempty:
    "transcribe (child (CompletedProcess 0 ''Hello'')) small_en ''/tmp/tmpk3.wav'' \<noteq> []"
    using completed has_text by simp
  from transcribe_returns_plain_string
      [of "child (CompletedProcess 0 ''Hello'')" small_en "''/tmp/tmpk3.wav''"] nonempty
  have "\<exists>rc' out'.
      child (CompletedProcess 0 ''Hello'') (command small_en ''/tmp/tmpk3.wav'') (timeout small_en) =
        CompletedProcess rc' out' \<and>
      transcribe (child (CompletedProcess 0 ''Hello'')) small_en ''/tmp/tmpk3.wav'' =
        clean_output out'"
    by blast
  with timed_out raised completed nonempty show ?thesis by blast
qed

section \<open>Properties of the PID file protocol\<close>














lemma str_5150: "py_str 5150 = ''5150''"
  by (simp add: py_str_def str_nat.simps digit_char_def char_of_def bit_Suc_0_iff)

lemma signal_owner_no_process:
  "py_int (py_strip txt) = Some pid \<Longrightarrow> pid_in_range pid \<Longrightarrow> process m pid = NoProcess \<Longrightarrow>
     signal_owner m txt = Inl ProcessLookupError"
  by (simp add: signal_owner_def os_kill_def)

lemma signal_owner_value_error:
  "py_int (py_strip txt) = None \<Longrightarrow> signal_owner m txt = Inl ValueError"
  by (simp add: signal_owner_def)





text \<open>
  C10. A PID file whose text is not a decimal integer is treated as a stale one: it is
  unlinked, no signal is sent, \<open>is_already_running\<close> answers \<open>False\<close>, and the
  invocation goes on to write its own identifier. The machine it leaves is the one a
  PID file naming a dead process, by an identifier \<open>os.kill\<close> accepts, leaves.
\<close>

theorem unparsable_marker_is_stale:
  assumes "pid_file m = Some txt" and "py_int (py_strip txt) = None"
  shows "is_already_running m = Inr (False, unlink_pid m) \<and>
         pid_file (unlink_pid m) = None \<and>
         trace (unlink_pid m) = trace m @ [UnlinkPid] \<and>
         claim_or_signal m = Inr (Claimed, write_pid (unlink_pid m)) \<and>
         pid_file (write_pid (unlink_pid m)) = Some (py_str (getpid m)) \<and>
         (py_int (py_strip txt') = Some pid \<and> pid_in_range pid \<and> process m pid = NoProcess \<longrightarrow>
            is_already_running (m\<lparr>pid_file := Some txt'\<rparr>) = Inr (False, unlink_pid m))"
  using assms
  by (auto simp: claim_or_signal_def is_already_running_def signal_owner_value_error
      signal_owner_no_process unlink_pid_def write_pid_def log_def)

theorem unparsable_marker_is_stale_witness:
  "pid_file (a_machine (Some ''garbage'')) = Some ''garbage'' \<and>
   py_int (py_strip ''garbage'') = None \<and>
   is_already_running (a_machine (Some ''garbage'')) =
     Inr (False, unlink_pid (a_machine (Some ''garbage''))) \<and>
   trace (unlink_pid (a_machine (Some ''garbage''))) = [UnlinkPid] \<and>
   claim_or_signal (a_machine (Some ''garbage'')) =
     Inr (Claimed, write_pid (unlink_pid (a_machine (Some ''garbage'')))) \<and>
   py_int (py_strip ''999999'') = Some 999999 \<and>
   pid_in_range 999999 \<and>
   process (a_machine (Some ''garbage'')) 999999 = NoProcess \<and>
   is_already_running ((a_machine (Some ''garbage''))\<lparr>pid_file := Some ''999999''\<rparr>) =
     Inr (False, unlink_pid (a_machine (Some ''garbage'')))"
proof -
  have marker: "pid_file (a_machine (Some ''garbage'')) = Some ''garbage''"
    by (simp add: a_machine_def)
  have bad: "py_int (py_strip ''garbage'') = None"
    by (simp add: py_int_def py_strip_def is_space_def parse_digits_def is_digit_def)
  have tr: "trace (a_machine (Some ''garbage'')) = []"
    by (simp add: a_machine_def)
  have parse: "py_int (py_strip ''999999'') = Some 999999"
    by (simp add: py_int_def py_strip_def is_space_def parse_digits_def is_digit_def digit_val_def)
  have range: "pid_in_range 999999"
    by (simp add: pid_in_range_def)
  have dead: "process (a_machine (Some ''garbage'')) 999999 = NoProcess"
    by (simp add: a_machine_def two_processes_def)
  from unparsable_marker_is_stale [OF marker bad, of "''999999''" 999999]
    marker bad tr parse range dead
  show ?thesis
    by simp
qed

text \<open>
  C2, amended. A PID file that names, by an identifier \<open>os.kill\<close> accepts (one in the
  range of a C \<open>int\<close>), a process that does not exist is unlinked,
  \<open>is_already_running\<close> answers \<open>False\<close>, and the invocation writes its own identifier
  and claims the session. There is no second look at the PID file: whatever is done to
  the machine between the check and the write, the write goes ahead and the result is
  \<open>Claimed\<close>.
\<close>

theorem stale_marker_reclaimed:
  assumes "pid_file m = Some txt" and "py_int (py_strip txt) = Some pid"
    and "pid_in_range pid" and "process m pid = NoProcess"
  shows "is_already_running m = Inr (False, unlink_pid m) \<and>
         pid_file (unlink_pid m) = None \<and>
         claim_or_signal m = Inr (Claimed, write_pid (unlink_pid m)) \<and>
         pid_file (write_pid (unlink_pid m)) = Some (py_str (getpid m)) \<and>
         claim_or_signal_between env m = Inr (Claimed, write_pid (env (unlink_pid m))) \<and>
         pid_file (write_pid (env (unlink_pid m))) = Some (py_str (getpid (env (unlink_pid m))))"
  using assms
  by (auto simp: claim_or_signal_def claim_or_signal_between_def is_already_running_def
      signal_owner_no_process unlink_pid_def write_pid_def log_def)

text \<open>
  C2, as the specification states it, fails: the PID file is looked at once. When the
  stale file naming 999999 has been unlinked and another process writes a second stale
  file naming 888888 before the write, the invocation overwrites it and claims the
  session; no error is reported.
\<close>

theorem second_stale_marker_overwritten:
  "process (a_machine (Some ''999999'')) 999999 = NoProcess \<and>
   process (a_machine (Some ''999999'')) 888888 = NoProcess \<and>
   pid_file (rewrite_marker ''888888'' (unlink_pid (a_machine (Some ''999999'')))) = Some ''888888'' \<and>
   claim_or_signal_between (rewrite_marker ''888888'') (a_machine (Some ''999999'')) =
     Inr (Claimed, (a_machine (Some ''5150''))\<lparr>trace := [UnlinkPid]\<rparr>)"
  by (simp add: claim_or_signal_between_def is_already_running_def signal_owner_def os_kill_def
      pid_in_range_def py_int_def py_strip_def is_space_def parse_digits_def is_digit_def
      digit_val_def a_machine_def two_processes_def rewrite_marker_def unlink_pid_def
      write_pid_def log_def str_5150)

theorem stale_marker_reclaimed_witness:
  "pid_file (a_machine (Some ''999999'')) = Some ''999999'' \<and>
   py_int (py_strip ''999999'') = Some 999999 \<and>
   pid_in_range 999999 \<and>
   process (a_machine (Some ''999999'')) 999999 = NoProcess \<and>
   claim_or_signal (a_machine (Some ''999999'')) =
     Inr (Claimed, write_pid (unlink_pid (a_machine (Some ''999999'')))) \<and>
   claim_or_signal_between (rewrite_marker ''888888'') (a_machine (Some ''999999'')) =
     Inr (Claimed, write_pid (rewrite_marker ''888888'' (unlink_pid (a_machine (Some ''999999'')))))"
proof -
  have marker: "pid_file (a_machine (Some ''999999'')) = Some ''999999''"
    by (simp add: a_machine_def)
  have parse: "py_int (py_strip ''999999'') = Some 999999"
    by (simp add: py_int_def py_strip_def is_space_def parse_digits_def is_digit_def digit_val_def)
  have range: "pid_in_range 999999"
    by (simp add: pid_in_range_def)
  have dead: "process (a_machine (Some ''999999'')) 999999 = NoProcess"
    by (simp add: a_machine_def two_processes_def)
  from stale_marker_reclaimed [OF marker parse range dead, of "rewrite_marker ''888888''"]
    marker parse range dead
  show ?thesis by simp
qed

section \<open>Properties of the recorder\<close>

lemma deliver_Nil: "deliver [] r = r"
  by (simp add: deliver_def)

lemma deliver_Cons: "deliver (c # cs) r = deliver cs (audio_callback c r)"
  by (simp add: deliver_def)

lemma deliver_not_recording: "\<not> recording r \<Longrightarrow> deliver chunks r = r"
  by (induction chunks) (simp_all add: deliver_Nil deliver_Cons audio_callback_def)

lemma audio_callback_fields:
  "recording r \<Longrightarrow>
     recording (audio_callback c r) \<and>
     audio_frames (audio_callback c r) = audio_frames r @ [c] \<and>
     temp_file_path (audio_callback c r) = temp_file_path r \<and>
     stream (audio_callback c r) = stream r \<and>
     files (audio_callback c r) = files r \<and>
     level_callback (audio_callback c r) = level_callback r \<and>
     pid_file (audio_callback c r) = pid_file r \<and>
     trace (audio_callback c r) = trace r @ (if level_callback r then [Level c] else [])"
  by (simp add: audio_callback_def log_def Let_def)

lemma deliver_fields:
  "recording r \<Longrightarrow>
     recording (deliver chunks r) \<and>
     audio_frames (deliver chunks r) = audio_frames r @ chunks \<and>
     temp_file_path (deliver chunks r) = temp_file_path r \<and>
     stream (deliver chunks r) = stream r \<and>
     files (deliver chunks r) = files r \<and>
     level_callback (deliver chunks r) = level_callback r \<and>
     pid_file (deliver chunks r) = pid_file r \<and>
     trace (deliver chunks r) = trace r @ (if level_callback r then map Level chunks else [])"
proof (induction chunks arbitrary: r)
  case Nil
  then show ?case by (simp add: deliver_Nil)
next
  case (Cons c cs)
  from Cons.prems have step: "recording (audio_callback c r)"
    by (simp add: audio_callback_fields)
  show ?case
    using Cons.IH [OF step] audio_callback_fields [OF Cons.prems, of c]
    by (simp add: deliver_Cons)
qed

lemma start_fields:
  "recording (start tmp r) \<and> audio_frames (start tmp r) = [] \<and>
   temp_file_path (start tmp r) = Some tmp \<and> stream (start tmp r) \<and>
   files (start tmp r) = (files r)(tmp \<mapsto> RawFile []) \<and>
   level_callback (start tmp r) = level_callback r \<and>
   pid_file (start tmp r) = pid_file r \<and>
   trace (start tmp r) = trace r @ [OpenStream]"
  by (simp add: start_def log_def)

text \<open>
  C6. When the chunks, at least one, reach the callback between \<open>start\<close> and
  \<open>stop\<close>, \<open>stop\<close> returns the temporary file, and that file is a WAV file of one
  channel, two bytes a sample and 16000 frames a second whose frames are the chunks
  concatenated in the order they arrived. Chunks that reach the callback while the
  recorder is not recording are dropped.
\<close>

theorem stop_writes_chunks_in_order:
  assumes "chunks \<noteq> []" and "tmp \<noteq> []"
  shows "fst (stop (deliver chunks (start tmp r))) = Some tmp \<and>
         files (snd (stop (deliver chunks (start tmp r)))) tmp =
           Some (WavFile 1 2 16000 (concat chunks)) \<and>
         (\<not> recording r \<longrightarrow> deliver early r = r)"
  using assms deliver_fields [of "start tmp r" chunks] start_fields [of tmp r]
  by (simp add: stop_def Let_def truthy_def log_def CHANNELS_def sample_size_def RATE_def
      deliver_not_recording)

theorem stop_writes_chunks_in_order_witness:
  "[[1, 2], [3, 4 :: 8 word]] \<noteq> [] \<and> ''/tmp/tmpk3.wav'' \<noteq> [] \<and>
   fst (stop (deliver [[1, 2], [3, 4]] (start ''/tmp/tmpk3.wav'' a_recorder))) =
     Some ''/tmp/tmpk3.wav'' \<and>
   files (snd (stop (deliver [[1, 2], [3, 4]] (start ''/tmp/tmpk3.wav'' a_recorder))))
     ''/tmp/tmpk3.wav'' = Some (WavFile 1 2 16000 [1, 2, 3, 4]) \<and>
   \<not> recording a_recorder \<and>
   deliver [[9, 9]] a_recorder = a_recorder"
proof -
  have idle: "\<not> recording a_recorder"
    by (simp add: a_recorder_def)
  from stop_writes_chunks_in_order
    [of "[[1, 2], [3, 4]]" "''/tmp/tmpk3.wav''" a_recorder "[[9, 9]]"] idle
  show ?thesis by simp
qed

text \<open>
  C9. \<open>stop\<close> on a recorder that is not recording returns \<open>None\<close> and leaves the
  recorder as it is. \<open>stop\<close> right after \<open>start\<close>, no chunk having arrived, returns
  \<open>None\<close>, writes no file and leaves the recorder not recording.
\<close>

theorem stop_without_audio:
  "(\<not> recording r \<longrightarrow> stop r = (None, r)) \<and>
   fst (stop (start tmp r)) = None \<and>
   files (snd (stop (start tmp r))) = files (start tmp r) \<and>
   \<not> recording (snd (stop (start tmp r)))"
  by (simp add: stop_def start_def Let_def log_def)

theorem stop_without_audio_witness:
  "\<not> recording a_recorder \<and> stop a_recorder = (None, a_recorder) \<and>
   fst (stop (start ''/tmp/tmpk3.wav'' a_recorder)) = None"
proof -
  have idle: "\<not> recording a_recorder"
    by (simp add: a_recorder_def)
  from stop_without_audio [of a_recorder "''/tmp/tmpk3.wav''"] idle
  show ?thesis by simp
qed

section \<open>Properties of the window\<close>

lemma run_events_Nil: "run_events [] w = w"
  by (simp add: run_events_def)

lemma run_events_Cons: "run_events (e # es) w = run_events es (handle e w)"
  by (simp add: run_events_def)

lemma run_events_append: "run_events (es @ fs) w = run_events fs (run_events es w)"
  by (simp add: run_events_def)

lemma run_events_chunks: "run_events (map AudioChunk chunks) w = deliver chunks w"
  by (induction chunks arbitrary: w) (simp_all add: run_events_Nil run_events_Cons deliver_Nil deliver_Cons)

lemma deliver_closed_form:
  "recording r \<Longrightarrow>
     deliver chunks r =
       r\<lparr>audio_frames := audio_frames r @ chunks,
         trace := trace r @ (if level_callback r then map Level chunks else [])\<rparr>"
proof (induction chunks arbitrary: r)
  case Nil
  then show ?case by (simp add: deliver_Nil)
next
  case (Cons c cs)
  have step: "recording (audio_callback c r)"
    using Cons.prems by (simp add: audio_callback_def log_def Let_def)
  show ?case
    using Cons.prems
    by (simp add: deliver_Cons Cons.IH [OF step]) (simp add: audio_callback_def log_def Let_def)
qed

lemma run_recorded_then:
  "run_events (TimerStart tmp # map AudioChunk chunks @ es) w =
     run_events es (deliver chunks (start_recording tmp w))"
  by (simp add: run_events_Cons run_events_append run_events_chunks)

lemma stop_request_handle:
  "stop_request e \<Longrightarrow> win_recording w \<Longrightarrow> handle e w = stop_and_transcribe w"
  by (cases e) (auto simp: key_press_event_def close_event_def)

lemma filter_finalization_levels: "filter finalization (map Level chunks) = []"
  by (induction chunks) simp_all

lemma filter_teardown_levels: "filter teardown_or_release (map Level chunks) = []"
  by (induction chunks) simp_all

lemma recorded:
  "deliver chunks (start_recording tmp w) =
     w\<lparr>win_recording := True, recording := True, audio_frames := chunks,
       temp_file_path := Some tmp, files := (files w)(tmp \<mapsto> RawFile []), stream := True,
       trace := trace w @ [OpenStream] @ (if level_callback w then map Level chunks else [])\<rparr>"
  by (subst deliver_closed_form) (simp_all add: start_recording_def start_def log_def)

lemma stopped_with_audio:
  assumes "chunks \<noteq> []" and "tmp \<noteq> []"
  shows "stop_and_transcribe (deliver chunks (start_recording tmp w)) =
     w\<lparr>win_recording := False, recording := False, audio_frames := chunks,
       temp_file_path := Some tmp,
       files := (files w)(tmp \<mapsto> WavFile 1 2 16000 (concat chunks)), stream := False,
       worker := Some tmp,
       trace := trace w @ [OpenStream] @ (if level_callback w then map Level chunks else []) @
         [StopStream, CloseStream, StartThread tmp]\<rparr>"
  using assms
  by (simp add: recorded stop_and_transcribe_def stop_def Let_def truthy_def log_def
      CHANNELS_def sample_size_def RATE_def)

lemma stopped_without_audio:
  "stop_and_transcribe (start_recording tmp w) =
     w\<lparr>win_recording := False, recording := False, audio_frames := [],
       temp_file_path := Some tmp, files := (files w)(tmp \<mapsto> RawFile []), stream := False,
       pid_file := None, close_timer := True,
       trace := trace w @ [OpenStream, StopStream, CloseStream, Terminate, UnlinkPid]\<rparr>"
  by (simp add: start_recording_def start_def stop_and_transcribe_def stop_def Let_def
      truthy_def log_def on_transcription_done_def cleanup_def cleanup_pid_def unlink_pid_def)

lemma filter_finalization_deliveries: "filter finalization (deliveries mode text) = []"
  by (simp add: deliveries_def)

lemma filter_teardown_deliveries: "filter teardown_or_release (deliveries mode text) = []"
  by (simp add: deliveries_def)

lemma thread_ran:
  assumes "tmp \<noteq> []" and "temp_file_path w = Some tmp"
  shows "transcribe_thread outcome f w =
     w\<lparr>files := (files w)(tmp := None),
       emitted := Some (transcribe (\<lambda>argv tmo. outcome) (the_transcriber w) f),
       trace := trace w @
         deliveries (output_mode w) (transcribe (\<lambda>argv tmo. outcome) (the_transcriber w) f) @
         [UnlinkTemp]\<rparr>"
  using assms
  by (simp add: transcribe_thread_def Let_def cleanup_temp_file_def truthy_def log_def
      deliveries_def)

lemma audio_path:
  assumes req: "stop_request e" and chunks: "chunks \<noteq> []" and tmp: "tmp \<noteq> []"
  shows "trace (run_events
           (TimerStart tmp # map AudioChunk chunks @ [e, WorkerRuns outcome, DoneDelivered, CloseTimer]) w) =
         trace w @ [OpenStream] @ (if level_callback w then map Level chunks else []) @
           [StopStream, CloseStream, StartThread tmp] @
           deliveries (output_mode w) (transcribe (\<lambda>argv tmo. outcome) (the_transcriber w) tmp) @
           [UnlinkTemp, Terminate, UnlinkPid, VisualizerStop, UnlinkPid] \<and>
         closed (run_events
           (TimerStart tmp # map AudioChunk chunks @ [e, WorkerRuns outcome, DoneDelivered, CloseTimer]) w) \<and>
         pid_file (run_events
           (TimerStart tmp # map AudioChunk chunks @ [e, WorkerRuns outcome, DoneDelivered, CloseTimer]) w) = None"
proof -
  let ?w1 = "deliver chunks (start_recording tmp w)"
  have rec: "win_recording ?w1"
    by (simp add: recorded)
  have "run_events
      (TimerStart tmp # map AudioChunk chunks @ [e, WorkerRuns outcome, DoneDelivered, CloseTimer]) w =
    run_events [WorkerRuns outcome, DoneDelivered, CloseTimer] (stop_and_transcribe ?w1)"
    using stop_request_handle [OF req rec]
    by (simp add: run_events_Cons run_events_append run_events_chunks)
  then show ?thesis
    using tmp
    by (simp add: stopped_with_audio [OF chunks tmp] run_events_Cons run_events_Nil thread_ran
        on_transcription_done_def cleanup_def cleanup_pid_def unlink_pid_def close_event_def log_def)
qed

lemma no_audio_path:
  assumes req: "stop_request e"
  shows "trace (run_events [TimerStart tmp, e, CloseTimer] w) =
           trace w @ [OpenStream, StopStream, CloseStream, Terminate, UnlinkPid,
             VisualizerStop, UnlinkPid] \<and>
         closed (run_events [TimerStart tmp, e, CloseTimer] w) \<and>
         pid_file (run_events [TimerStart tmp, e, CloseTimer] w) = None"
proof -
  have rec: "win_recording (start_recording tmp w)"
    by (simp add: start_recording_def start_def log_def)
  have "run_events [TimerStart tmp, e, CloseTimer] w =
    run_events [CloseTimer] (stop_and_transcribe (start_recording tmp w))"
    using stop_request_handle [OF req rec] by (simp add: run_events_Cons)
  then show ?thesis
    by (simp add: stopped_without_audio run_events_Cons run_events_Nil close_event_def
        cleanup_pid_def unlink_pid_def log_def)
qed

lemma follow_append:
  "follow p (xs @ ys) = (case follow p xs of None \<Rightarrow> None | Some q \<Rightarrow> follow q ys)"
  by (induction xs arbitrary: p) (simp_all split: option.splits)

lemma follow_counts:
  "follow p xs = Some q \<Longrightarrow>
     length (filter (\<lambda>a. a = Terminate) xs) \<le> (if p = Started \<or> p = ArtifactRemoved then 1 else 0) \<and>
     length (filter (\<lambda>a. a = UnlinkTemp) xs) \<le> (if p = Started then 1 else 0)"
proof (induction xs arbitrary: p)
  case Nil
  then show ?case by simp
next
  case (Cons a as)
  from Cons.prems obtain r where r: "advance p a = Some r" and rest: "follow r as = Some q"
    by (auto split: option.splits)
  from Cons.IH [OF rest] r show ?case
    by (cases a; cases p) (auto split: if_splits)
qed

lemma stop_and_transcribe_between:
  "between_events w \<Longrightarrow> between_events (stop_and_transcribe w)"
  by (auto simp: between_events_def stop_and_transcribe_def stop_def Let_def truthy_def log_def
      on_transcription_done_def cleanup_def cleanup_pid_def unlink_pid_def follow_append
      split: option.splits if_splits)

lemma cleanup_pid_between:
  "between_events w \<Longrightarrow> between_events (cleanup_pid w)"
  by (auto simp: between_events_def cleanup_pid_def unlink_pid_def log_def follow_append)

lemma handle_between:
  "between_events w \<Longrightarrow> no_restart [e] \<Longrightarrow> between_events (handle e w)"
proof (cases e)
  case (TimerStart tmp)
  assume "no_restart [e]"
  with TimerStart show ?thesis by simp
next
  case (AudioChunk c)
  assume "between_events w"
  then show ?thesis
    using AudioChunk
    by (auto simp: between_events_def audio_callback_def log_def Let_def follow_append)
next
  case (KeyPress k)
  assume "between_events w"
  then show ?thesis
    using KeyPress by (simp add: key_press_event_def stop_and_transcribe_between)
next
  case StopSignal
  assume "between_events w"
  then show ?thesis
    using StopSignal by (simp add: stop_and_transcribe_between)
next
  case TermSignal
  assume "between_events w"
  then show ?thesis
    using TermSignal by (simp add: stop_and_transcribe_between cleanup_pid_between)
next
  case CloseRequest
  assume inv: "between_events w"
  show ?thesis
  proof (cases "win_recording w")
    case True
    then show ?thesis
      using CloseRequest inv by (simp add: close_event_def stop_and_transcribe_between)
  next
    case False
    then show ?thesis
      using CloseRequest inv
      by (auto simp: between_events_def close_event_def cleanup_pid_def unlink_pid_def log_def
          follow_append)
  qed
next
  case (WorkerRuns outcome)
  assume "between_events w"
  then show ?thesis
    using WorkerRuns
    by (auto simp: between_events_def transcribe_thread_def Let_def cleanup_temp_file_def
        log_def follow_append split: option.splits)
next
  case DoneDelivered
  assume "between_events w"
  then show ?thesis
    using DoneDelivered
    by (auto simp: between_events_def on_transcription_done_def cleanup_def cleanup_pid_def
        unlink_pid_def log_def follow_append split: option.splits)
next
  case CloseTimer
  assume inv: "between_events w"
  show ?thesis
  proof (cases "close_timer w \<and> win_recording w")
    case True
    have "between_events (w\<lparr>close_timer := False\<rparr>)"
      using inv by (simp add: between_events_def)
    then show ?thesis
      using CloseTimer True by (simp add: close_event_def stop_and_transcribe_between)
  next
    case False
    then show ?thesis
      using CloseTimer inv
      by (auto simp: between_events_def close_event_def cleanup_pid_def unlink_pid_def log_def
          follow_append)
  qed
qed

lemma no_restart_Cons: "no_restart (e # es) \<Longrightarrow> no_restart [e] \<and> no_restart es"
  by (cases e) simp_all

lemma run_events_between:
  "between_events w \<Longrightarrow> no_restart es \<Longrightarrow> between_events (run_events es w)"
proof (induction es arbitrary: w)
  case Nil
  then show ?case by (simp add: run_events_def)
next
  case (Cons e es)
  from Cons.prems(2) have one: "no_restart [e]" and rest: "no_restart es"
    using no_restart_Cons by blast+
  have "between_events (handle e w)"
    using Cons.prems(1) one by (rule handle_between)
  from Cons.IH [OF this rest] show ?case
    by (simp add: run_events_def)
qed

lemma between_events_orderly: "between_events w \<Longrightarrow> orderly (trace w)"
  by (auto simp: between_events_def orderly_def)

lemma orderly_counts:
  "orderly tr \<Longrightarrow>
     length (filter (\<lambda>a. a = Terminate) tr) \<le> 1 \<and> length (filter (\<lambda>a. a = UnlinkTemp) tr) \<le> 1"
proof -
  assume "orderly tr"
  then obtain q where "follow Started tr = Some q"
    by (auto simp: orderly_def split: option.splits)
  from follow_counts [OF this] show ?thesis by simp
qed

lemma handle_before_start:
  "before_start w \<Longrightarrow> no_restart [e] \<Longrightarrow> before_start (handle e w)"
  by (cases e)
     (auto simp: before_start_def audio_callback_def key_press_event_def stop_and_transcribe_def
        close_event_def cleanup_pid_def unlink_pid_def log_def Let_def follow_append)

lemma start_between: "before_start w \<Longrightarrow> between_events (handle (TimerStart tmp) w)"
  by (simp add: before_start_def between_events_def start_recording_def start_def log_def
      follow_append)

lemma before_start_orderly: "before_start w \<Longrightarrow> orderly (trace w)"
  by (simp add: before_start_def orderly_def)

lemma whole_session_orderly:
  "before_start w \<Longrightarrow> at_most_one_start es \<Longrightarrow> orderly (trace (run_events es w))"
proof (induction es arbitrary: w)
  case Nil
  then show ?case by (simp add: run_events_def before_start_orderly)
next
  case (Cons e es)
  show ?case
  proof (cases "\<exists>tmp. e = TimerStart tmp")
    case True
    then obtain tmp where e: "e = TimerStart tmp" by blast
    with Cons.prems(2) have rest: "no_restart es" by simp
    have "between_events (run_events es (handle (TimerStart tmp) w))"
      using start_between [OF Cons.prems(1)] rest by (rule run_events_between)
    then show ?thesis
      using e by (simp add: run_events_def between_events_orderly)
  next
    case False
    then have one: "no_restart [e]" and rest: "at_most_one_start es"
      using Cons.prems(2) by (cases e; simp)+
    have "before_start (handle e w)"
      using Cons.prems(1) one by (rule handle_before_start)
    from Cons.IH [OF this rest] show ?thesis
      by (simp add: run_events_def)
  qed
qed

lemma fresh_before_start: "fresh w \<Longrightarrow> before_start w"
  by (simp add: fresh_def before_start_def)

lemma stop_and_transcribe_closed: "closed (stop_and_transcribe w) = closed w"
  by (auto simp: stop_and_transcribe_def stop_def Let_def truthy_def log_def
      on_transcription_done_def cleanup_def cleanup_pid_def unlink_pid_def
      split: option.splits if_splits)

lemma closing_step:
  assumes "\<not> closed w" and "closed (handle e w)"
  shows "trace (handle e w) = trace w @ [VisualizerStop, UnlinkPid] \<and> pid_file (handle e w) = None"
proof (cases e)
  case CloseRequest
  then show ?thesis
    using assms
    by (cases "win_recording w")
       (simp_all add: close_event_def stop_and_transcribe_closed cleanup_pid_def unlink_pid_def log_def)
next
  case CloseTimer
  then show ?thesis
    using assms
    by (cases "win_recording w"; cases "close_timer w")
       (simp_all add: close_event_def stop_and_transcribe_closed cleanup_pid_def unlink_pid_def log_def)
next
  case (TimerStart tmp)
  then show ?thesis
    using assms by (simp add: start_recording_def start_def log_def)
next
  case (AudioChunk c)
  then show ?thesis
    using assms by (simp add: audio_callback_def log_def Let_def split: if_splits)
next
  case (KeyPress k)
  then show ?thesis
    using assms by (simp add: key_press_event_def stop_and_transcribe_closed split: if_splits)
next
  case StopSignal
  then show ?thesis
    using assms by (simp add: stop_and_transcribe_closed)
next
  case TermSignal
  then show ?thesis
    using assms by (simp add: stop_and_transcribe_closed cleanup_pid_def unlink_pid_def log_def)
next
  case (WorkerRuns outcome)
  then show ?thesis
    using assms
    by (simp add: transcribe_thread_def Let_def cleanup_temp_file_def log_def
        split: option.splits if_splits)
next
  case DoneDelivered
  then show ?thesis
    using assms
    by (simp add: on_transcription_done_def cleanup_def cleanup_pid_def unlink_pid_def log_def
        split: option.splits)
qed

lemma transcribing_fields:
  "\<not> win_recording transcribing \<and> \<not> closed transcribing \<and>
   pid_file transcribing = Some ''5150'' \<and> worker transcribing = Some ''/tmp/tmpk3.wav'' \<and>
   trace transcribing = [OpenStream, Level [1, 2], StopStream, CloseStream, StartThread ''/tmp/tmpk3.wav'']"
proof -
  let ?v = "deliver [[1, 2]] (start_recording ''/tmp/tmpk3.wav'' a_window)"
  have a: "transcribing = run_events [KeyPress Key_Space] ?v"
    unfolding transcribing_def
    using run_recorded_then [of "''/tmp/tmpk3.wav''" "[[1, 2]]" "[KeyPress Key_Space]" a_window]
    by simp
  have b: "run_events [KeyPress Key_Space] ?v = handle (KeyPress Key_Space) ?v"
    by (simp add: run_events_Cons run_events_Nil)
  have c: "handle (KeyPress Key_Space) ?v = stop_and_transcribe ?v"
    by (rule stop_request_handle) (simp_all add: recorded)
  have eq: "transcribing = stop_and_transcribe ?v"
    by (simp only: a b c)
  show ?thesis
    unfolding eq by (simp add: stopped_with_audio a_window_def)
qed

text \<open>
  C3, as the specification states it, fails. When audio was recorded and transcribed,
  the PID file is unlinked twice on the way to the closed window, once by
  \<open>_on_transcription_done\<close> and once by \<open>closeEvent\<close>. When no audio was recorded, the
  temporary file is not removed at all.
\<close>

theorem finalization_once_in_order_fails:
  "filter finalization (trace (run_events
      [TimerStart ''/tmp/tmpk3.wav'', AudioChunk [1, 2], AudioChunk [3, 4], KeyPress Key_Space,
       WorkerRuns (CompletedProcess 0 ''testing one two''), DoneDelivered, CloseTimer] a_window)) =
     [UnlinkTemp, Terminate, UnlinkPid, UnlinkPid] \<and>
   closed (run_events
      [TimerStart ''/tmp/tmpk3.wav'', AudioChunk [1, 2], AudioChunk [3, 4], KeyPress Key_Space,
       WorkerRuns (CompletedProcess 0 ''testing one two''), DoneDelivered, CloseTimer] a_window) \<and>
   filter finalization (trace (run_events
      [TimerStart ''/tmp/tmpk3.wav'', StopSignal, CloseTimer] a_window)) =
     [Terminate, UnlinkPid, UnlinkPid] \<and>
   closed (run_events [TimerStart ''/tmp/tmpk3.wav'', StopSignal, CloseTimer] a_window)"
proof -
  have tr: "trace a_window = []" and lc: "level_callback a_window"
    by (simp_all add: a_window_def)
  have "stop_request (KeyPress Key_Space)" and "[[1, 2], [3, 4 :: 8 word]] \<noteq> []"
    and "''/tmp/tmpk3.wav'' \<noteq> []"
    by simp_all
  from audio_path [OF this, where w = a_window and outcome = "CompletedProcess 0 ''testing one two''"]
  have audio: "filter finalization (trace (run_events
      [TimerStart ''/tmp/tmpk3.wav'', AudioChunk [1, 2], AudioChunk [3, 4], KeyPress Key_Space,
       WorkerRuns (CompletedProcess 0 ''testing one two''), DoneDelivered, CloseTimer] a_window)) =
     [UnlinkTemp, Terminate, UnlinkPid, UnlinkPid] \<and>
   closed (run_events
      [TimerStart ''/tmp/tmpk3.wav'', AudioChunk [1, 2], AudioChunk [3, 4], KeyPress Key_Space,
       WorkerRuns (CompletedProcess 0 ''testing one two''), DoneDelivered, CloseTimer] a_window)"
    by (simp add: tr lc filter_finalization_deliveries)
  have "stop_request StopSignal"
    by simp
  from no_audio_path [OF this, where tmp = "''/tmp/tmpk3.wav''" and w = a_window]
  have silent: "filter finalization (trace (run_events
      [TimerStart ''/tmp/tmpk3.wav'', StopSignal, CloseTimer] a_window)) =
     [Terminate, UnlinkPid, UnlinkPid] \<and>
   closed (run_events [TimerStart ''/tmp/tmpk3.wav'', StopSignal, CloseTimer] a_window)"
    by (simp add: tr)
  from audio silent show ?thesis by blast
qed

text \<open>
  C3, amended. In every session (any sequence of audio chunks, keys, stop and
  termination signals, requests to close the window, and the transcription thread
  running and delivering its result, in which the timer that starts the recording
  fires at most once) the trace is orderly: the temporary audio file is removed at most
  once and never after the audio hardware is released, the hardware is released at most
  once, each release of the hardware is followed at once by a removal of the PID file,
  and the PID file may be removed any number of times, also before the other steps. The
  window closes only in \<open>closeEvent\<close>, and the last thing done there is the removal of
  the PID file. In a session that runs to its end after a stop request (Escape or
  Space, the peer's signal, or the window being closed), with audio recorded, the steps
  are: removal of the temporary file, release of the hardware, removal of the PID file,
  and removal of the PID file again on closing; without audio they are: release of the
  hardware and removal of the PID file twice.
\<close>

theorem finalization_order:
  "(fresh w \<and> at_most_one_start es \<longrightarrow>
      orderly (trace (run_events es w)) \<and>
      length (filter (\<lambda>a. a = Terminate) (trace (run_events es w))) \<le> 1 \<and>
      length (filter (\<lambda>a. a = UnlinkTemp) (trace (run_events es w))) \<le> 1) \<and>
   (\<not> closed v \<and> closed (handle e' v) \<longrightarrow>
      trace (handle e' v) = trace v @ [VisualizerStop, UnlinkPid] \<and>
      pid_file (handle e' v) = None) \<and>
   (stop_request e \<and> chunks \<noteq> [] \<and> tmp \<noteq> [] \<longrightarrow>
      filter finalization (trace (run_events
        (TimerStart tmp # map AudioChunk chunks @
           [e, WorkerRuns outcome, DoneDelivered, CloseTimer]) w)) =
        filter finalization (trace w) @ [UnlinkTemp, Terminate, UnlinkPid, UnlinkPid] \<and>
      closed (run_events
        (TimerStart tmp # map AudioChunk chunks @
           [e, WorkerRuns outcome, DoneDelivered, CloseTimer]) w)) \<and>
   (stop_request e \<longrightarrow>
      filter teardown_or_release (trace (run_events [TimerStart tmp, e, CloseTimer] w)) =
        filter teardown_or_release (trace w) @ [Terminate, UnlinkPid, UnlinkPid] \<and>
      closed (run_events [TimerStart tmp, e, CloseTimer] w))"
proof -
  have general: "fresh w \<and> at_most_one_start es \<longrightarrow>
      orderly (trace (run_events es w)) \<and>
      length (filter (\<lambda>a. a = Terminate) (trace (run_events es w))) \<le> 1 \<and>
      length (filter (\<lambda>a. a = UnlinkTemp) (trace (run_events es w))) \<le> 1"
    using whole_session_orderly fresh_before_start orderly_counts by blast
  have closing: "\<not> closed v \<and> closed (handle e' v) \<longrightarrow>
      trace (handle e' v) = trace v @ [VisualizerStop, UnlinkPid] \<and>
      pid_file (handle e' v) = None"
    using closing_step by blast
  have audio: "stop_request e \<and> chunks \<noteq> [] \<and> tmp \<noteq> [] \<longrightarrow>
      filter finalization (trace (run_events
        (TimerStart tmp # map AudioChunk chunks @
           [e, WorkerRuns outcome, DoneDelivered, CloseTimer]) w)) =
        filter finalization (trace w) @ [UnlinkTemp, Terminate, UnlinkPid, UnlinkPid] \<and>
      closed (run_events
        (TimerStart tmp # map AudioChunk chunks @
           [e, WorkerRuns outcome, DoneDelivered, CloseTimer]) w)"
  proof
    assume a: "stop_request e \<and> chunks \<noteq> [] \<and> tmp \<noteq> []"
    then have "stop_request e" and "chunks \<noteq> []" and "tmp \<noteq> []"
      by simp_all
    from audio_path [OF this, where w = w and outcome = outcome]
    show "filter finalization (trace (run_events
        (TimerStart tmp # map AudioChunk chunks @
           [e, WorkerRuns outcome, DoneDelivered, CloseTimer]) w)) =
        filter finalization (trace w) @ [UnlinkTemp, Terminate, UnlinkPid, UnlinkPid] \<and>
      closed (run_events
        (TimerStart tmp # map AudioChunk chunks @
           [e, WorkerRuns outcome, DoneDelivered, CloseTimer]) w)"
      by (simp add: filter_finalization_deliveries filter_finalization_levels)
  qed
  have silent: "stop_request e \<longrightarrow>
      filter teardown_or_release (trace (run_events [TimerStart tmp, e, CloseTimer] w)) =
        filter teardown_or_release (trace w) @ [Terminate, UnlinkPid, UnlinkPid] \<and>
      closed (run_events [TimerStart tmp, e, CloseTimer] w)"
  proof
    assume "stop_request e"
    from no_audio_path [OF this, where tmp = tmp and w = w]
    show "filter teardown_or_release (trace (run_events [TimerStart tmp, e, CloseTimer] w)) =
        filter teardown_or_release (trace w) @ [Terminate, UnlinkPid, UnlinkPid] \<and>
      closed (run_events [TimerStart tmp, e, CloseTimer] w)"
      by simp
  qed
  from general closing audio silent show ?thesis
    by blast
qed

theorem finalization_order_witness:
  "fresh a_window \<and>
   at_most_one_start
     [TimerStart ''/tmp/tmpk3.wav'', AudioChunk [1, 2], KeyPress Key_Space, CloseRequest] \<and>
   orderly (trace (run_events
      [TimerStart ''/tmp/tmpk3.wav'', AudioChunk [1, 2], KeyPress Key_Space, CloseRequest]
      a_window)) \<and>
   length (filter (\<lambda>a. a = Terminate) (trace (run_events
      [TimerStart ''/tmp/tmpk3.wav'', AudioChunk [1, 2], KeyPress Key_Space, CloseRequest]
      a_window))) \<le> 1 \<and>
   \<not> closed transcribing \<and>
   closed (handle CloseRequest transcribing) \<and>
   trace (handle CloseRequest transcribing) = trace transcribing @ [VisualizerStop, UnlinkPid] \<and>
   pid_file (handle CloseRequest transcribing) = None \<and>
   stop_request CloseRequest \<and> [[1, 2 :: 8 word]] \<noteq> [] \<and> ''/tmp/tmpk3.wav'' \<noteq> [] \<and>
   filter finalization (trace (run_events
      [TimerStart ''/tmp/tmpk3.wav'', AudioChunk [1, 2], CloseRequest, WorkerRuns TimeoutExpired,
       DoneDelivered, CloseTimer] a_window)) =
     [UnlinkTemp, Terminate, UnlinkPid, UnlinkPid] \<and>
   closed (run_events
      [TimerStart ''/tmp/tmpk3.wav'', AudioChunk [1, 2], CloseRequest, WorkerRuns TimeoutExpired,
       DoneDelivered, CloseTimer] a_window) \<and>
   filter teardown_or_release (trace (run_events
      [TimerStart ''/tmp/tmpk3.wav'', CloseRequest, CloseTimer] a_window)) =
     [Terminate, UnlinkPid, UnlinkPid] \<and>
   closed (run_events [TimerStart ''/tmp/tmpk3.wav'', CloseRequest, CloseTimer] a_window)"
proof -
  have tr: "trace a_window = []"
    by (simp add: a_window_def)
  have h1: "fresh a_window \<and>
      at_most_one_start
        [TimerStart ''/tmp/tmpk3.wav'', AudioChunk [1, 2], KeyPress Key_Space, CloseRequest]"
    by (simp add: fresh_def a_window_def)
  have h2: "\<not> closed transcribing \<and> closed (handle CloseRequest transcribing)"
    using transcribing_fields
    by (simp add: close_event_def cleanup_pid_def unlink_pid_def log_def)
  have h3: "stop_request CloseRequest \<and> [[1, 2 :: 8 word]] \<noteq> [] \<and> ''/tmp/tmpk3.wav'' \<noteq> []"
    by simp
  note inst = finalization_order
    [where w = a_window
       and es = "[TimerStart ''/tmp/tmpk3.wav'', AudioChunk [1, 2], KeyPress Key_Space, CloseRequest]"
       and tmp = "''/tmp/tmpk3.wav''" and v = transcribing and e' = CloseRequest
       and e = CloseRequest and chunks = "[[1, 2]]" and outcome = TimeoutExpired]
  from inst h1 have p1: "orderly (trace (run_events
      [TimerStart ''/tmp/tmpk3.wav'', AudioChunk [1, 2], KeyPress Key_Space, CloseRequest]
      a_window)) \<and>
   length (filter (\<lambda>a. a = Terminate) (trace (run_events
      [TimerStart ''/tmp/tmpk3.wav'', AudioChunk [1, 2], KeyPress Key_Space, CloseRequest]
      a_window))) \<le> 1"
    by blast
  from inst h2 have p2:
    "trace (handle CloseRequest transcribing) = trace transcribing @ [VisualizerStop, UnlinkPid] \<and>
     pid_file (handle CloseRequest transcribing) = None"
    by blast
  from inst h3 have p3: "filter finalization (trace (run_events
      (TimerStart ''/tmp/tmpk3.wav'' # map AudioChunk [[1, 2]] @
         [CloseRequest, WorkerRuns TimeoutExpired, DoneDelivered, CloseTimer]) a_window)) =
      filter finalization (trace a_window) @ [UnlinkTemp, Terminate, UnlinkPid, UnlinkPid] \<and>
    closed (run_events
      (TimerStart ''/tmp/tmpk3.wav'' # map AudioChunk [[1, 2]] @
         [CloseRequest, WorkerRuns TimeoutExpired, DoneDelivered, CloseTimer]) a_window)"
    by blast
  from inst h3 have p4: "filter teardown_or_release (trace (run_events
      [TimerStart ''/tmp/tmpk3.wav'', CloseRequest, CloseTimer] a_window)) =
      filter teardown_or_release (trace a_window) @ [Terminate, UnlinkPid, UnlinkPid] \<and>
    closed (run_events [TimerStart ''/tmp/tmpk3.wav'', CloseRequest, CloseTimer] a_window)"
    by blast
  from h1 h2 h3 p1 p2 p3 p4 tr show ?thesis
    by simp
qed

text \<open>
  C8, amended. Once the window is no longer recording, \<open>stop_and_transcribe\<close> changes
  nothing, so a key and the peer's signal are ignored. A request to close the window
  starts no second stream stop and no second transcription thread either, but it is not
  ignored: the close is accepted, the visualizer is stopped and the PID file is
  unlinked.
\<close>

theorem later_stop_requests:
  assumes "\<not> win_recording w"
  shows "stop_and_transcribe w = w \<and>
         handle (KeyPress k) w = w \<and>
         handle StopSignal w = w \<and>
         filter stops_or_starts (trace (handle CloseRequest w)) = filter stops_or_starts (trace w) \<and>
         worker (handle CloseRequest w) = worker w \<and>
         trace (handle CloseRequest w) = trace w @ [VisualizerStop, UnlinkPid] \<and>
         pid_file (handle CloseRequest w) = None \<and>
         closed (handle CloseRequest w)"
  using assms
  by (simp add: stop_and_transcribe_def key_press_event_def close_event_def cleanup_pid_def
      unlink_pid_def log_def)

text \<open>
  C8, as the specification states it, fails for the window being closed: in the state
  reached by a first stop request, with the transcription thread started, a request to
  close the window closes it and unlinks the PID file.
\<close>

theorem close_after_stop_is_not_ignored:
  "\<not> win_recording transcribing \<and> \<not> closed transcribing \<and>
   pid_file transcribing = Some ''5150'' \<and>
   closed (handle CloseRequest transcribing) \<and>
   pid_file (handle CloseRequest transcribing) = None \<and>
   handle CloseRequest transcribing \<noteq> transcribing"
proof -
  have after: "closed (handle CloseRequest transcribing) \<and>
      pid_file (handle CloseRequest transcribing) = None"
    using transcribing_fields
    by (simp add: close_event_def cleanup_pid_def unlink_pid_def log_def)
  then have "handle CloseRequest transcribing \<noteq> transcribing"
    using transcribing_fields by metis
  with after transcribing_fields show ?thesis by blast
qed

theorem later_stop_requests_witness:
  "\<not> win_recording transcribing \<and>
   stop_and_transcribe transcribing = transcribing \<and>
   handle (KeyPress Key_Escape) transcribing = transcribing \<and>
   handle StopSignal transcribing = transcribing \<and>
   worker (handle CloseRequest transcribing) = Some ''/tmp/tmpk3.wav'' \<and>
   closed (handle CloseRequest transcribing)"
proof -
  have idle: "\<not> win_recording transcribing"
    using transcribing_fields by blast
  from later_stop_requests [OF idle, of Key_Escape] transcribing_fields
  show ?thesis by simp
qed

end
